theory Spec2Isabelle
  imports Main "HOL-Library.AList"
begin

section \<open>Strings\<close>

text \<open>
  Python \<^verbatim>\<open>str.lower\<close> on the ASCII range: the letters \<^verbatim>\<open>A\<close> to \<^verbatim>\<open>Z\<close> move
  down by 32 and every other character stays. Header names and the words
  \<^verbatim>\<open>true\<close>, \<^verbatim>\<open>1\<close>, \<^verbatim>\<open>yes\<close> are ASCII. A character outside ASCII is
  several bytes here and is left as it is; Python may lowercase it, but never into a
  letter of the words compared below, so the comparisons agree.
\<close>

definition lower_char :: "char \<Rightarrow> char" where
  "lower_char c =
     (let n = (of_char c :: nat) in if 65 \<le> n \<and> n \<le> 90 then char_of (n + 32) else c)"

definition lower :: "string \<Rightarrow> string" where
  "lower s = map lower_char s"

text \<open>Python \<^verbatim>\<open>s.startswith(sub)\<close> and \<^verbatim>\<open>sub in s\<close> on strings.\<close>

definition startswith :: "string \<Rightarrow> string \<Rightarrow> bool" where
  "startswith s sub = (take (length sub) s = sub)"

fun contains :: "string \<Rightarrow> string \<Rightarrow> bool" where
  "contains sub [] = (sub = [])"
| "contains sub (c # cs) = (startswith (c # cs) sub \<or> contains sub cs)"

section \<open>JSON values and Python truthiness\<close>

text \<open>
  What \<^verbatim>\<open>json.loads\<close> builds: \<^verbatim>\<open>None\<close>, a bool, an int, a float, a str, a list
  or a dict. A finite float is \<open>m * 2 ^ e\<close>, kept as the pair of mantissa and
  exponent; the three special floats are values of their own. A dict is the list of
  its items in insertion order, with one item for each key.
\<close>

datatype pyfloat = Finite int int | NaN | PosInf | NegInf

datatype json =
    JNull
  | JBool bool
  | JInt int
  | JFloat pyfloat
  | JString string
  | JArray "json list"
  | JObject "(string \<times> json) list"

text \<open>Python's \<^verbatim>\<open>bool(x)\<close>, which \<^verbatim>\<open>if\<close> and \<^verbatim>\<open>or\<close> apply to their operand.\<close>

fun truthy :: "json \<Rightarrow> bool" where
  "truthy JNull = False"
| "truthy (JBool b) = b"
| "truthy (JInt n) = (n \<noteq> 0)"
| "truthy (JFloat (Finite m e)) = (m \<noteq> 0)"
| "truthy (JFloat f) = True"
| "truthy (JString s) = (s \<noteq> [])"
| "truthy (JArray xs) = (xs \<noteq> [])"
| "truthy (JObject kvs) = (kvs \<noteq> [])"

text \<open>\<^verbatim>\<open>a or b\<close> is \<^verbatim>\<open>a\<close> when \<^verbatim>\<open>a\<close> is truthy and \<^verbatim>\<open>b\<close> otherwise.\<close>

definition py_or :: "json \<Rightarrow> json \<Rightarrow> json" where
  "py_or a b = (if truthy a then a else b)"

text \<open>\<^verbatim>\<open>d.get(key, default)\<close> on a dict.\<close>

definition dict_get :: "(string \<times> 'v) list \<Rightarrow> string \<Rightarrow> 'v \<Rightarrow> 'v" where
  "dict_get d k dflt = (case map_of d k of Some v \<Rightarrow> v | None \<Rightarrow> dflt)"

section \<open>The inbound request\<close>

text \<open>
  The exceptions the handlers tell apart, with the classes of
  \<^verbatim>\<open>requests.exceptions\<close>: a \<^verbatim>\<open>ConnectTimeout\<close> is both a \<^verbatim>\<open>ConnectionError\<close>
  and a \<^verbatim>\<open>Timeout\<close>, and \<^verbatim>\<open>ProxyError\<close> and \<^verbatim>\<open>SSLError\<close> are
  \<^verbatim>\<open>ConnectionError\<close>s. \<^verbatim>\<open>BadRequest\<close> is what \<^verbatim>\<open>request.get_json()\<close> raises on
  a body that does not parse. \<open>str_of\<close> is \<^verbatim>\<open>str(e)\<close>.
\<close>

datatype exn_class =
    ConnectionError
  | ProxyError
  | SSLError
  | ConnectTimeout
  | ReadTimeout
  | Timeout
  | ChunkedEncodingError
  | BadRequest
  | OtherException

record exn =
  cls :: exn_class
  str_of :: string

fun is_ConnectionError :: "exn_class \<Rightarrow> bool" where
  "is_ConnectionError ConnectionError = True"
| "is_ConnectionError ProxyError = True"
| "is_ConnectionError SSLError = True"
| "is_ConnectionError ConnectTimeout = True"
| "is_ConnectionError _ = False"

fun is_Timeout :: "exn_class \<Rightarrow> bool" where
  "is_Timeout ConnectTimeout = True"
| "is_Timeout ReadTimeout = True"
| "is_Timeout Timeout = True"
| "is_Timeout _ = False"

text \<open>
  The fields of Flask's \<^verbatim>\<open>request\<close> that the handler reads. \<open>http_method\<close> is
  \<^verbatim>\<open>request.method\<close>; \<open>headers\<close> are the
  inbound headers in order; \<open>query_string\<close> is the raw query string as
  \<^verbatim>\<open>request.query_string.decode()\<close> gives it (a query that is not valid UTF-8 makes
  that call raise before anything is classified or forwarded; such requests are not
  modelled);
  \<open>args\<close> are its parsed pairs in order; \<open>is_json\<close> is Flask's test of the
  \<^verbatim>\<open>Content-Type\<close> header (\<^verbatim>\<open>application/json\<close> or \<^verbatim>\<open>application/*+json\<close>);
  \<open>json_body\<close> is the body parsed as JSON, \<open>None\<close> when it is not valid JSON;
  \<open>data\<close> is the raw body.
\<close>

record request =
  http_method :: string
  query_string :: string
  headers :: "(string \<times> string) list"
  args :: "(string \<times> string) list"
  is_json :: bool
  json_body :: "json option"
  data :: string

text \<open>\<^verbatim>\<open>request.headers.get(name, default)\<close>: header names compare without case.\<close>

definition headers_get :: "(string \<times> string) list \<Rightarrow> string \<Rightarrow> string \<Rightarrow> string" where
  "headers_get hs name dflt =
     (case find (\<lambda>(k, v). lower k = lower name) hs of Some (k, v) \<Rightarrow> v | None \<Rightarrow> dflt)"

text \<open>\<^verbatim>\<open>request.args.get(name, default)\<close>: the first value of the key.\<close>

definition args_get :: "(string \<times> string) list \<Rightarrow> string \<Rightarrow> string \<Rightarrow> string" where
  "args_get a name dflt = dict_get a name dflt"

text \<open>\<^verbatim>\<open>request.get_json()\<close>: the parsed body, or \<^verbatim>\<open>BadRequest\<close> raised.\<close>

definition get_json :: "request \<Rightarrow> exn + json" where
  "get_json req =
     (case json_body req of
        None \<Rightarrow> Inl \<lparr>cls = BadRequest, str_of = ''Failed to decode JSON object''\<rparr>
      | Some j \<Rightarrow> Inr j)"

section \<open>The stream classifier\<close>

text \<open>
  \<^verbatim>\<open>is_streaming_request\<close>, lines 26 to 47. The \<^verbatim>\<open>try\<close> with its bare
  \<^verbatim>\<open>except: pass\<close> is the case on \<open>get_json\<close>: on \<open>Inl\<close> the flag keeps its
  initial \<^verbatim>\<open>False\<close>. The result is the value of the \<^verbatim>\<open>or\<close> chain, so it is the
  \<^verbatim>\<open>stream\<close> value of the body itself when nothing before it is true.
\<close>

definition body_stream_flag :: "request \<Rightarrow> json" where
  "body_stream_flag req =
     (if is_json req then
        (case get_json req of
           Inr (JObject d) \<Rightarrow> dict_get d ''stream'' (JBool False)
         | Inr _ \<Rightarrow> JBool False
         | Inl e \<Rightarrow> JBool False)
      else JBool False)"

definition is_streaming_request :: "request \<Rightarrow> json" where
  "is_streaming_request req =
     (let accept_header = headers_get (headers req) ''Accept'' '''';
          stream_param = lower (args_get (args req) ''stream'' '''');
          is_stream_request = body_stream_flag req
      in py_or
           (py_or
              (py_or (JBool (contains ''text/event-stream'' accept_header))
                     (JBool (contains ''application/x-ndjson'' accept_header)))
              (JBool (stream_param \<in> set [''true'', ''1'', ''yes''])))
           is_stream_request)"

section \<open>The upstream call\<close>

text \<open>
  The keyword arguments of one \<^verbatim>\<open>requests.request(...)\<close> call. \<open>kw_params\<close> is
  \<^verbatim>\<open>request.args\<close> as it is handed over; \<open>kw_stream\<close> and
  \<open>kw_allow_redirects\<close> carry the library's defaults (\<^verbatim>\<open>False\<close>, \<^verbatim>\<open>True\<close>)
  where the call leaves them out.
\<close>

datatype timeout = Seconds nat | ConnectRead nat "nat option"

record requests_call =
  kw_method :: string
  kw_url :: string
  kw_headers :: "(string \<times> string) list"
  kw_data :: string
  kw_params :: "(string \<times> string) list"
  kw_stream :: bool
  kw_allow_redirects :: bool
  kw_timeout :: timeout

text \<open>
  What the call gives back: \<^verbatim>\<open>resp.status_code\<close>, \<^verbatim>\<open>resp.reason\<close>, the items of
  \<^verbatim>\<open>resp.headers\<close>, \<^verbatim>\<open>resp.content\<close> (the body read whole) and what iterating
  \<^verbatim>\<open>resp.iter_content(...)\<close> produces: the chunks in the order read, and the
  exception that ends the iteration when the read fails (\<open>None\<close> when the body
  ends normally).

  \<open>raw\<close> is the body as the upstream sent it, byte for byte. The handler never
  sees it: the library hands over \<open>content\<close>, which is \<open>raw\<close> with the content
  coding named by the upstream's \<^verbatim>\<open>Content-Encoding\<close> header undone (\<^verbatim>\<open>gzip\<close>,
  \<^verbatim>\<open>deflate\<close>), and \<open>raw\<close> itself when the upstream applied none. The decoders
  are the library's and are not modelled: a response carries both fields.
\<close>

record up_response =
  status_code :: nat
  reason :: string
  resp_headers :: "(string \<times> string) list"
  raw :: string
  content :: string
  iter_content :: "string list"
  iter_raises :: "exn option"

text \<open>The upstream, as seen through the library: a call returns or raises.\<close>

type_synonym upstream = "requests_call \<Rightarrow> exn + up_response"

section \<open>The response handed to Flask\<close>

text \<open>
  The body is bytes, a JSON document (\<^verbatim>\<open>jsonify\<close>), or a generator: the chunks it
  yields and the exception that leaves it, if one does.
\<close>

datatype body = Bytes string | Json json | Stream "string list" "exn option"

record response =
  status :: nat
  response_headers :: "(string \<times> string) list"
  body :: body
  mimetype :: "string option"

text \<open>\<^verbatim>\<open>jsonify(d)\<close>, and the \<^verbatim>\<open>return jsonify(d), code\<close> form of a view's result.\<close>

definition jsonify :: "json \<Rightarrow> response" where
  "jsonify j =
     \<lparr>status = 200, response_headers = [], body = Json j,
      mimetype = Some ''application/json''\<rparr>"

definition with_status :: "response \<Rightarrow> nat \<Rightarrow> response" where
  "with_status r code = r\<lparr>status := code\<rparr>"

definition error_body :: "string \<Rightarrow> string \<Rightarrow> json" where
  "error_body kind message =
     JObject [(''error'', JString kind), (''message'', JString message)]"

section \<open>Header filtering\<close>

text \<open>
  Lines 135 to 138: the forwarded headers are a dict filled in the order of the
  inbound headers; assigning an existing key replaces its value in place.
\<close>

definition forward_headers :: "(string \<times> string) list \<Rightarrow> (string \<times> string) list" where
  "forward_headers hs =
     fold (\<lambda>(key, val) acc.
             if lower key \<notin> set [''host'', ''connection'', ''transfer-encoding'']
             then AList.update key val acc else acc)
          hs []"

text \<open>Lines 97 to 101 and 159 to 163, the same comprehension in both paths.\<close>

definition excluded_headers :: "string list" where
  "excluded_headers =
     [''content-encoding'', ''content-length'', ''transfer-encoding'', ''connection'']"

definition filter_response_headers :: "(string \<times> string) list \<Rightarrow> (string \<times> string) list" where
  "filter_response_headers hs =
     filter (\<lambda>(key, val). lower key \<notin> set excluded_headers) hs"

section \<open>The streaming path\<close>

text \<open>
  \<^verbatim>\<open>stream_generator\<close>, lines 106 to 109: every truthy chunk is yielded; an
  exception of \<^verbatim>\<open>iter_content\<close> is not caught and leaves the generator.
\<close>

definition stream_generator :: "up_response \<Rightarrow> body" where
  "stream_generator resp =
     Stream (filter (\<lambda>chunk. chunk \<noteq> []) (iter_content resp)) (iter_raises resp)"

text \<open>
  The call of lines 87 to 95. \<^verbatim>\<open>generate\<close> (lines 52 to 60) writes the same
  call.
\<close>

definition streaming_call ::
  "request \<Rightarrow> string \<Rightarrow> (string \<times> string) list \<Rightarrow> string \<Rightarrow> requests_call" where
  "streaming_call req target_url hdrs dat =
     \<lparr>kw_method = http_method req, kw_url = target_url, kw_headers = hdrs,
      kw_data = dat, kw_params = args req, kw_stream = True,
      kw_allow_redirects = True, kw_timeout = ConnectRead 10 None\<rparr>"

text \<open>
  \<^verbatim>\<open>proxy_streaming_response\<close>, lines 86 to 123, with the upstream calls it
  issued. The inner function \<^verbatim>\<open>generate\<close> (lines 50 to 84) is defined there and
  never called; it is modelled on its own below.
\<close>

definition proxy_streaming_response ::
  "upstream \<Rightarrow> request \<Rightarrow> string \<Rightarrow> (string \<times> string) list \<Rightarrow> string
     \<Rightarrow> response \<times> requests_call list" where
  "proxy_streaming_response upstream req target_url hdrs dat =
     (case upstream (streaming_call req target_url hdrs dat) of
        Inr resp \<Rightarrow>
          \<lparr>status = status_code resp,
           response_headers =
             filter_response_headers (resp_headers resp)
               @ [(''Cache-Control'', ''no-cache'')] @ [(''Connection'', ''keep-alive'')],
           body = stream_generator resp,
           mimetype = Some (headers_get (resp_headers resp) ''content-type'' ''text/plain'')\<rparr>
      | Inl e \<Rightarrow>
          with_status (jsonify (error_body ''Streaming setup error'' (str_of e))) 500,
      [streaming_call req target_url hdrs dat])"

text \<open>
  \<^verbatim>\<open>generate\<close>, lines 50 to 84: the items it would yield. It issues the call
  itself, puts a status line first when the status is not 200, and turns every
  exception, of the call or of the iteration, into one \<^verbatim>\<open>data:\<close> item. The
  f-string prints the error dict with Python's \<^verbatim>\<open>repr\<close>, which is the parameter
  \<open>repr\<close> here; \<open>str_nat\<close> is \<^verbatim>\<open>str\<close> on a status code.
\<close>

fun str_nat :: "nat \<Rightarrow> string" where
  "str_nat n =
     (if n < 10 then [char_of (48 + n)]
      else str_nat (n div 10) @ [char_of (48 + n mod 10)])"

declare str_nat.simps [simp del]

definition status_marker :: "up_response \<Rightarrow> string" where
  "status_marker resp =
     ''HTTP/1.1 '' @ str_nat (status_code resp) @ '' '' @ reason resp @ [CHR 0x0A]"

definition error_event :: "(json \<Rightarrow> string) \<Rightarrow> json \<Rightarrow> string" where
  "error_event repr error_response =
     ''data: '' @ repr error_response @ [CHR 0x0A, CHR 0x0A]"

definition generate_except :: "(json \<Rightarrow> string) \<Rightarrow> string \<Rightarrow> exn \<Rightarrow> string" where
  "generate_except repr LLAMA_SERVER e =
     (if is_ConnectionError (cls e) then
        error_event repr
          (error_body ''Connection error''
             (''Unable to connect to llama.cpp server at '' @ LLAMA_SERVER))
      else error_event repr (error_body ''Streaming error'' (str_of e)))"

definition generate ::
  "(json \<Rightarrow> string) \<Rightarrow> string \<Rightarrow> upstream \<Rightarrow> requests_call \<Rightarrow> string list" where
  "generate repr LLAMA_SERVER upstream call =
     (case upstream call of
        Inr resp \<Rightarrow>
          (if status_code resp \<noteq> 200 then [status_marker resp] else [])
            @ filter (\<lambda>chunk. chunk \<noteq> []) (iter_content resp)
            @ (case iter_raises resp of
                 None \<Rightarrow> []
               | Some e \<Rightarrow> [generate_except repr LLAMA_SERVER e])
      | Inl e \<Rightarrow> [generate_except repr LLAMA_SERVER e])"

section \<open>The handler\<close>

text \<open>Lines 130 to 132.\<close>

definition target_url :: "string \<Rightarrow> string \<Rightarrow> request \<Rightarrow> string" where
  "target_url LLAMA_SERVER path req =
     (let u = LLAMA_SERVER @ ''/'' @ path
      in if query_string req \<noteq> [] then u @ ''?'' @ query_string req else u)"

text \<open>
  \<^verbatim>\<open>proxy\<close>, lines 127 to 190, with the upstream calls it issued. The
  \<^verbatim>\<open>except\<close> clauses are tried in the order written, each by
  \<^verbatim>\<open>isinstance\<close>.
\<close>

definition buffered_call :: "string \<Rightarrow> string \<Rightarrow> request \<Rightarrow> requests_call" where
  "buffered_call LLAMA_SERVER path req =
     \<lparr>kw_method = http_method req, kw_url = target_url LLAMA_SERVER path req,
      kw_headers = forward_headers (headers req), kw_data = data req,
      kw_params = args req, kw_stream = False, kw_allow_redirects = False,
      kw_timeout = Seconds 300\<rparr>"

definition proxy :: "string \<Rightarrow> upstream \<Rightarrow> string \<Rightarrow> request \<Rightarrow> response \<times> requests_call list" where
  "proxy LLAMA_SERVER upstream path req =
     (if truthy (is_streaming_request req) then
        proxy_streaming_response upstream req (target_url LLAMA_SERVER path req)
          (forward_headers (headers req)) (data req)
      else
        (case upstream (buffered_call LLAMA_SERVER path req) of
           Inr resp \<Rightarrow>
             \<lparr>status = status_code resp,
              response_headers = filter_response_headers (resp_headers resp),
              body = Bytes (content resp),
              mimetype = None\<rparr>
         | Inl e \<Rightarrow>
             if is_ConnectionError (cls e) then
               with_status
                 (jsonify (error_body ''Connection error''
                    (''Unable to connect to llama.cpp server at '' @ LLAMA_SERVER))) 502
             else if is_Timeout (cls e) then
               with_status
                 (jsonify (error_body ''Timeout error''
                    ''Request to llama.cpp server timed out'')) 504
             else
               with_status (jsonify (error_body ''Proxy error'' (str_of e))) 500,
         [buffered_call LLAMA_SERVER path req]))"

section \<open>What the library sends\<close>

text \<open>
  \<^verbatim>\<open>requests\<close> prepares the URL of a call from \<open>kw_url\<close> and \<open>kw_params\<close>:
  the items of the params (for Flask's multi-dict, the first value of each key)
  are form-encoded and appended to the query of the URL, after \<^verbatim>\<open>&\<close> when the URL
  already has a query and after \<^verbatim>\<open>?\<close> otherwise. This is the library's
  \<^verbatim>\<open>PreparedRequest.prepare_url\<close>, not code of the repository; it is here to
  say which URL the upstream receives. The library then re-quotes the whole URL
  (\<^verbatim>\<open>requote_uri\<close>), which leaves a URL of letters, digits and the delimiters
  \<^verbatim>\<open>:/?&=.\<close> as it is; that step is left out, so \<open>prepared_url\<close> stands for the
  library on such URLs only and is evaluated at one of them.
\<close>

definition multidict_items :: "(string \<times> string) list \<Rightarrow> (string \<times> string) list" where
  "multidict_items a =
     fold (\<lambda>(k, v) acc. if map_of acc k = None then acc @ [(k, v)] else acc) a []"

definition hex_digit :: "nat \<Rightarrow> char" where
  "hex_digit n = ''0123456789ABCDEF'' ! (n mod 16)"

definition quote_plus_char :: "char \<Rightarrow> string" where
  "quote_plus_char c =
     (let n = (of_char c :: nat)
      in if (48 \<le> n \<and> n \<le> 57) \<or> (65 \<le> n \<and> n \<le> 90) \<or> (97 \<le> n \<and> n \<le> 122)
            \<or> c \<in> set ''_.-~''
         then [c]
         else if c = CHR '' '' then ''+''
         else [CHR ''%'', hex_digit (n div 16), hex_digit (n mod 16)])"

definition quote_plus :: "string \<Rightarrow> string" where
  "quote_plus s = concat (map quote_plus_char s)"

fun join_amp :: "string list \<Rightarrow> string" where
  "join_amp [] = []"
| "join_amp [x] = x"
| "join_amp (x # y # ys) = x @ ''&'' @ join_amp (y # ys)"

definition urlencode :: "(string \<times> string) list \<Rightarrow> string" where
  "urlencode ps = join_amp (map (\<lambda>(k, v). quote_plus k @ ''='' @ quote_plus v) ps)"

definition prepared_url :: "requests_call \<Rightarrow> string" where
  "prepared_url call =
     (let enc_params = urlencode (multidict_items (kw_params call));
          base = takeWhile (\<lambda>c. c \<noteq> CHR ''?'') (kw_url call);
          query = drop 1 (dropWhile (\<lambda>c. c \<noteq> CHR ''?'') (kw_url call))
      in if enc_params = [] then kw_url call
         else if query \<noteq> [] then base @ ''?'' @ query @ ''&'' @ enc_params
         else base @ ''?'' @ enc_params)"

section \<open>Sample requests and upstreams\<close>

text \<open>The inputs the closed theorems below are evaluated at.\<close>

definition sse_request :: request where
  "sse_request =
     \<lparr>http_method = ''POST'', query_string = [],
      headers = [(''Host'', ''localhost:8080''), (''Accept'', ''text/event-stream'')],
      args = [], is_json = False, json_body = None, data = ''prompt''\<rparr>"

definition plain_request :: request where
  "plain_request =
     \<lparr>http_method = ''GET'', query_string = [],
      headers = [(''Host'', ''localhost:8080''), (''Connection'', ''close''),
                 (''X-Trace'', ''7'')],
      args = [], is_json = False, json_body = None, data = []\<rparr>"

definition query_request :: request where
  "query_request =
     \<lparr>http_method = ''GET'', query_string = ''a=1'',
      headers = [(''Host'', ''localhost:8080'')],
      args = [(''a'', ''1'')], is_json = False, json_body = None, data = []\<rparr>"

text \<open>
  A body that is the JSON mapping \<^verbatim>\<open>{"stream": true}\<close>, sent as
  \<^verbatim>\<open>text/plain\<close>, and one that is sent as JSON and does not parse.
\<close>

definition untyped_json_request :: request where
  "untyped_json_request =
     \<lparr>http_method = ''POST'', query_string = [],
      headers = [(''Host'', ''localhost:8080''), (''Content-Type'', ''text/plain'')],
      args = [], is_json = False,
      json_body = Some (JObject [(''stream'', JBool True)]),
      data = ''{\"stream\": true}''\<rparr>"

definition malformed_json_request :: request where
  "malformed_json_request =
     \<lparr>http_method = ''POST'', query_string = ''stream=YES'',
      headers = [(''Host'', ''localhost:8080''), (''Content-Type'', ''application/json'')],
      args = [(''stream'', ''YES'')], is_json = True, json_body = None,
      data = ''{\"stream\": tru''\<rparr>"

definition refused :: exn where
  "refused = \<lparr>cls = ConnectionError, str_of = ''Connection refused''\<rparr>"

definition connect_timed_out :: exn where
  "connect_timed_out = \<lparr>cls = ConnectTimeout, str_of = ''connect timed out''\<rparr>"

definition read_timed_out :: exn where
  "read_timed_out = \<lparr>cls = ReadTimeout, str_of = ''Read timed out.''\<rparr>"

definition broken_read :: exn where
  "broken_read = \<lparr>cls = ChunkedEncodingError, str_of = ''Connection broken''\<rparr>"

definition upstream_raising :: "exn \<Rightarrow> upstream" where
  "upstream_raising e = (\<lambda>call. Inl e)"

definition upstream_returning :: "up_response \<Rightarrow> upstream" where
  "upstream_returning resp = (\<lambda>call. Inr resp)"

definition hello_response :: up_response where
  "hello_response =
     \<lparr>status_code = 200, reason = ''OK'',
      resp_headers = [(''X-Test'', ''1''), (''Content-Length'', ''5''),
                      (''Content-Encoding'', ''identity''), (''Transfer-Encoding'', ''chunked''),
                      (''Connection'', ''close'')],
      raw = ''hello'', content = ''hello'', iter_content = [''hello''],
      iter_raises = None\<rparr>"

definition not_found_response :: up_response where
  "not_found_response =
     \<lparr>status_code = 404, reason = ''Not Found'',
      resp_headers = [(''Content-Type'', ''text/plain'')],
      raw = ''missing'', content = ''missing'', iter_content = [''missing''],
      iter_raises = None\<rparr>"

definition cached_response :: up_response where
  "cached_response =
     \<lparr>status_code = 200, reason = ''OK'',
      resp_headers = [(''Cache-Control'', ''max-age=3600''), (''Connection'', ''close''),
                      (''Content-Type'', ''text/event-stream'')],
      raw = ''abc'', content = ''abc'', iter_content = [''a'', [], ''b'', ''c''],
      iter_raises = None\<rparr>"

definition broken_response :: up_response where
  "broken_response =
     \<lparr>status_code = 200, reason = ''OK'',
      resp_headers = [(''Content-Type'', ''text/event-stream'')],
      raw = ''a'', content = ''a'', iter_content = [''a''],
      iter_raises = Some broken_read\<rparr>"



text \<open>Whether a response body is a generator, and the chunks it yields.\<close>

fun is_stream :: "body \<Rightarrow> bool" where
  "is_stream (Stream chunks e) = True"
| "is_stream _ = False"

fun stream_chunks :: "body \<Rightarrow> string list" where
  "stream_chunks (Stream chunks e) = chunks"
| "stream_chunks _ = []"

fun stream_raises :: "body \<Rightarrow> exn option" where
  "stream_raises (Stream chunks e) = e"
| "stream_raises _ = None"

section \<open>Facts about the string functions\<close>

text \<open>\<open>contains\<close> is the substring test: some prefix and suffix surround \<open>sub\<close>.\<close>

lemma contains_iff: "contains sub s \<longleftrightarrow> (\<exists>p q. s = p @ sub @ q)"
proof (induction s)
  case Nil
  then show ?case by auto
next
  case (Cons c cs)
  have start: "startswith (c # cs) sub \<longleftrightarrow> (\<exists>q. c # cs = sub @ q)"
    unfolding startswith_def by (metis append_eq_conv_conj)
  have split: "(\<exists>p q. c # cs = p @ sub @ q) \<longleftrightarrow>
      (\<exists>q. c # cs = sub @ q) \<or> (\<exists>p q. cs = p @ sub @ q)"
  proof
    assume "\<exists>p q. c # cs = p @ sub @ q"
    then obtain p q where pq: "c # cs = p @ sub @ q" by blast
    show "(\<exists>q. c # cs = sub @ q) \<or> (\<exists>p q. cs = p @ sub @ q)"
    proof (cases p)
      case Nil
      with pq show ?thesis by auto
    next
      case (Cons a p')
      with pq have "cs = p' @ sub @ q" by simp
      then show ?thesis by blast
    qed
  next
    assume "(\<exists>q. c # cs = sub @ q) \<or> (\<exists>p q. cs = p @ sub @ q)"
    then show "\<exists>p q. c # cs = p @ sub @ q"
    proof
      assume "\<exists>q. c # cs = sub @ q"
      then show ?thesis by (metis append_Nil)
    next
      assume "\<exists>p q. cs = p @ sub @ q"
      then obtain p q where "cs = p @ sub @ q" by blast
      then have "c # cs = (c # p) @ sub @ q" by simp
      then show ?thesis by blast
    qed
  qed
  show ?case using start split Cons.IH by simp
qed

section \<open>The classifier\<close>

lemma truthy_dict_get:
  "truthy (dict_get d k (JBool False)) \<longleftrightarrow> (\<exists>v. map_of d k = Some v \<and> truthy v)"
  by (simp add: dict_get_def split: option.splits)

text \<open>
  The \<^verbatim>\<open>or\<close> chain: \<^verbatim>\<open>True\<close> when a header or query signal holds, and the body's
  flag itself otherwise.
\<close>

lemma classifier_value:
  "is_streaming_request req =
     (if contains ''text/event-stream'' (headers_get (headers req) ''Accept'' '''')
         \<or> contains ''application/x-ndjson'' (headers_get (headers req) ''Accept'' '''')
         \<or> lower (args_get (args req) ''stream'' '''') \<in> set [''true'', ''1'', ''yes'']
      then JBool True else body_stream_flag req)"
  by (simp add: is_streaming_request_def py_or_def Let_def)

lemma body_stream_flag_truthy:
  "truthy (body_stream_flag req) \<longleftrightarrow>
     is_json req \<and>
     (\<exists>d v. json_body req = Some (JObject d) \<and> map_of d ''stream'' = Some v \<and> truthy v)"
  by (auto simp: body_stream_flag_def get_json_def truthy_dict_get
      split: option.splits json.splits sum.splits)

lemma body_stream_flag_absent:
  assumes "json_body req = None \<or> \<not> is_json req"
  shows "body_stream_flag req = JBool False"
  using assms by (auto simp: body_stream_flag_def get_json_def)

text \<open>
  C3, as the code has it. The classifier's result is truthy exactly when the
  \<^verbatim>\<open>Accept\<close> header contains \<^verbatim>\<open>text/event-stream\<close> or \<^verbatim>\<open>application/x-ndjson\<close>,
  or the \<^verbatim>\<open>stream\<close> query parameter, lowercased, is \<^verbatim>\<open>true\<close>, \<^verbatim>\<open>1\<close> or
  \<^verbatim>\<open>yes\<close>, or the request is marked as JSON by its content type and its body is
  valid JSON whose top-level value is a mapping with a truthy \<^verbatim>\<open>stream\<close> value.
  The content-type condition is the guard \<^verbatim>\<open>if request.is_json\<close> of line 34.
\<close>

theorem classifier_true_iff:
  "truthy (is_streaming_request req) \<longleftrightarrow>
     contains ''text/event-stream'' (headers_get (headers req) ''Accept'' '''')
     \<or> contains ''application/x-ndjson'' (headers_get (headers req) ''Accept'' '''')
     \<or> lower (args_get (args req) ''stream'' '''') \<in> set [''true'', ''1'', ''yes'']
     \<or> (is_json req \<and>
         (\<exists>d v. json_body req = Some (JObject d) \<and> map_of d ''stream'' = Some v \<and> truthy v))"
  unfolding classifier_value using body_stream_flag_truthy[of req] by auto

text \<open>
  C3 as stated fails: a body that is the JSON mapping \<^verbatim>\<open>{"stream": true}\<close>, sent
  with \<^verbatim>\<open>Content-Type: text/plain\<close> and no \<^verbatim>\<open>Accept\<close> header or query
  parameter, is classified \<^verbatim>\<open>False\<close>, because the body is never parsed.
\<close>

theorem classifier_ignores_untyped_json:
  "json_body untyped_json_request = Some (JObject [(''stream'', JBool True)])
   \<and> map_of [(''stream'', JBool True)] ''stream'' = Some (JBool True)
   \<and> is_streaming_request untyped_json_request = JBool False
   \<and> \<not> truthy (is_streaming_request untyped_json_request)"
  by code_simp

text \<open>
  C4. When the body does not parse as JSON, or the request is not marked as JSON,
  the classifier's result is the boolean of the header and query signals alone:
  the \<^verbatim>\<open>BadRequest\<close> that \<^verbatim>\<open>get_json\<close> raises is absorbed and the function
  returns a value.
\<close>

theorem classifier_falls_back_on_bad_body:
  assumes "json_body req = None \<or> \<not> is_json req"
  shows "is_streaming_request req =
     JBool (contains ''text/event-stream'' (headers_get (headers req) ''Accept'' '''')
            \<or> contains ''application/x-ndjson'' (headers_get (headers req) ''Accept'' '''')
            \<or> lower (args_get (args req) ''stream'' '''') \<in> set [''true'', ''1'', ''yes''])"
  unfolding classifier_value using body_stream_flag_absent[OF assms] by simp

lemma malformed_raises:
  "get_json malformed_json_request =
     Inl \<lparr>cls = BadRequest, str_of = ''Failed to decode JSON object''\<rparr>"
  by (simp add: get_json_def malformed_json_request_def)

lemma malformed_signals:
  "lower (args_get (args malformed_json_request) ''stream'' '''') = ''yes''"
  by code_simp

theorem classifier_falls_back_on_bad_body_witness:
  "json_body malformed_json_request = None
   \<and> is_json malformed_json_request
   \<and> (\<exists>e. get_json malformed_json_request = Inl e)
   \<and> is_streaming_request malformed_json_request = JBool True"
proof -
  have h: "json_body malformed_json_request = None \<or> \<not> is_json malformed_json_request"
    by (simp add: malformed_json_request_def)
  have j: "json_body malformed_json_request = None \<and> is_json malformed_json_request"
    by (simp add: malformed_json_request_def)
  show ?thesis
    using classifier_falls_back_on_bad_body[OF h] j malformed_raises malformed_signals
    by simp
qed

section \<open>The two paths of the handler\<close>

lemma proxy_streaming:
  assumes "truthy (is_streaming_request req)"
  shows "proxy L upstream path req =
     proxy_streaming_response upstream req (target_url L path req)
       (forward_headers (headers req)) (data req)"
  using assms by (simp add: proxy_def)

lemma proxy_buffered:
  assumes "\<not> truthy (is_streaming_request req)"
  shows "proxy L upstream path req =
     (case upstream (buffered_call L path req) of
        Inr resp \<Rightarrow>
          \<lparr>status = status_code resp,
           response_headers = filter_response_headers (resp_headers resp),
           body = Bytes (content resp), mimetype = None\<rparr>
      | Inl e \<Rightarrow>
          if is_ConnectionError (cls e) then
            with_status
              (jsonify (error_body ''Connection error''
                 (''Unable to connect to llama.cpp server at '' @ L))) 502
          else if is_Timeout (cls e) then
            with_status
              (jsonify (error_body ''Timeout error''
                 ''Request to llama.cpp server timed out'')) 504
          else with_status (jsonify (error_body ''Proxy error'' (str_of e))) 500,
      [buffered_call L path req])"
  using assms by (simp add: proxy_def)

lemma streaming_returns:
  assumes "upstream (streaming_call req url hdrs dat) = Inr resp"
  shows "fst (proxy_streaming_response upstream req url hdrs dat) =
     \<lparr>status = status_code resp,
      response_headers =
        filter_response_headers (resp_headers resp)
          @ [(''Cache-Control'', ''no-cache''), (''Connection'', ''keep-alive'')],
      body = stream_generator resp,
      mimetype = Some (headers_get (resp_headers resp) ''content-type'' ''text/plain'')\<rparr>"
  using assms by (simp add: proxy_streaming_response_def)

lemma streaming_raises:
  assumes "upstream (streaming_call req url hdrs dat) = Inl e"
  shows "fst (proxy_streaming_response upstream req url hdrs dat) =
     with_status (jsonify (error_body ''Streaming setup error'' (str_of e))) 500"
  using assms by (simp add: proxy_streaming_response_def)

text \<open>Every request leads to exactly one upstream call, to the target URL, with the parsed
  query handed over as params as well.\<close>

lemma calls_carry_target_and_params:
  "map kw_url (snd (proxy L upstream path req)) = [target_url L path req]
   \<and> map kw_params (snd (proxy L upstream path req)) = [args req]"
  by (simp add: proxy_def proxy_streaming_response_def streaming_call_def buffered_call_def)

lemma target_url_shape:
  "target_url L path req =
     (if query_string req = [] then L @ ''/'' @ path
      else L @ ''/'' @ path @ ''?'' @ query_string req)"
  by (simp add: target_url_def Let_def)

lemma sse_is_streaming: "truthy (is_streaming_request sse_request)"
  by code_simp

lemma plain_is_buffered: "\<not> truthy (is_streaming_request plain_request)"
  by code_simp

section \<open>The streaming path\<close>

lemma concat_nonempty: "concat (filter (\<lambda>chunk. chunk \<noteq> []) xs) = concat xs"
  by (induction xs) auto

text \<open>
  C10. In streaming mode, when the upstream call returns, the generator handed to
  the caller yields exactly the non-empty chunks of the upstream iterator, in the
  order read: the empty ones are dropped, the bytes relayed are the bytes read, and
  nothing is reordered or repeated.
\<close>

theorem streamed_body_is_nonempty_chunks:
  assumes "truthy (is_streaming_request req)"
    and "upstream (streaming_call req (target_url L path req)
           (forward_headers (headers req)) (data req)) = Inr resp"
  shows "body (fst (proxy L upstream path req)) =
           Stream (filter (\<lambda>chunk. chunk \<noteq> []) (iter_content resp)) (iter_raises resp)
         \<and> concat (stream_chunks (body (fst (proxy L upstream path req))))
             = concat (iter_content resp)
         \<and> [] \<notin> set (stream_chunks (body (fst (proxy L upstream path req))))"
  using assms
  by (simp add: proxy_streaming streaming_returns stream_generator_def concat_nonempty)

theorem streamed_body_is_nonempty_chunks_witness:
  "truthy (is_streaming_request sse_request)
   \<and> iter_content cached_response = [''a'', [], ''b'', ''c'']
   \<and> body (fst (proxy ''http://localhost:9997'' (upstream_returning cached_response)
              ''v1/completions'' sse_request))
       = Stream [''a'', ''b'', ''c''] None"
proof -
  have up: "upstream_returning cached_response
      (streaming_call sse_request (target_url ''http://localhost:9997'' ''v1/completions'' sse_request)
         (forward_headers (headers sse_request)) (data sse_request)) = Inr cached_response"
    by (simp add: upstream_returning_def)
  show ?thesis
    using streamed_body_is_nonempty_chunks[where upstream = "upstream_returning cached_response"
        and req = sse_request and L = "''http://localhost:9997''" and path = "''v1/completions''"
        and resp = cached_response, OF sse_is_streaming up] sse_is_streaming
    by (simp add: cached_response_def)
qed

text \<open>
  C1 as stated fails. With the upstream refusing the connection, a streaming request
  gets no generator and no \<^verbatim>\<open>data:\<close> line: lines 118 to 123 answer with status 500
  and a JSON document.
\<close>

theorem streaming_setup_failure_not_in_stream:
  "truthy (is_streaming_request sse_request)
   \<and> is_ConnectionError (cls refused)
   \<and> \<not> is_stream (body (fst (proxy ''http://localhost:9997'' (upstream_raising refused)
                ''v1/completions'' sse_request)))
   \<and> stream_chunks (body (fst (proxy ''http://localhost:9997'' (upstream_raising refused)
                ''v1/completions'' sse_request))) = []
   \<and> status (fst (proxy ''http://localhost:9997'' (upstream_raising refused)
                ''v1/completions'' sse_request)) = 500"
  by code_simp

text \<open>
  C1, as the code has it. In streaming mode, when the upstream call raises before a
  response exists (a connection error or any other exception), the caller receives
  status 500 with the JSON body \<^verbatim>\<open>{"error": "Streaming setup error", "message":
  str(e)}\<close>, after exactly one upstream call; the body is never empty.
\<close>

theorem streaming_setup_failure_is_500:
  assumes "truthy (is_streaming_request req)"
    and "upstream (streaming_call req (target_url L path req)
           (forward_headers (headers req)) (data req)) = Inl e"
  shows "status (fst (proxy L upstream path req)) = 500
         \<and> body (fst (proxy L upstream path req)) =
             Json (JObject [(''error'', JString ''Streaming setup error''),
                            (''message'', JString (str_of e))])
         \<and> snd (proxy L upstream path req) =
             [streaming_call req (target_url L path req)
                (forward_headers (headers req)) (data req)]"
  using assms
  by (simp add: proxy_streaming streaming_raises with_status_def jsonify_def error_body_def
      proxy_streaming_response_def)

theorem streaming_setup_failure_is_500_witness:
  "truthy (is_streaming_request sse_request)
   \<and> status (fst (proxy ''http://localhost:9997'' (upstream_raising refused)
                ''v1/completions'' sse_request)) = 500
   \<and> body (fst (proxy ''http://localhost:9997'' (upstream_raising refused)
                ''v1/completions'' sse_request)) =
        Json (JObject [(''error'', JString ''Streaming setup error''),
                       (''message'', JString ''Connection refused'')])"
proof -
  have up: "upstream_raising refused
      (streaming_call sse_request (target_url ''http://localhost:9997'' ''v1/completions'' sse_request)
         (forward_headers (headers sse_request)) (data sse_request)) = Inl refused"
    by (simp add: upstream_raising_def)
  show ?thesis
    using streaming_setup_failure_is_500[where upstream = "upstream_raising refused"
        and req = sse_request and L = "''http://localhost:9997''" and path = "''v1/completions''"
        and e = refused, OF sse_is_streaming up] sse_is_streaming
    by (simp add: refused_def)
qed

text \<open>
  C2, evaluated on the code. The upstream yields the chunk \<^verbatim>\<open>a\<close> and the read then
  fails: \<^verbatim>\<open>stream_generator\<close> yields the chunk and the exception leaves the
  generator. No \<^verbatim>\<open>data:\<close> item follows the chunk.
\<close>

theorem mid_stream_exception_not_converted:
  "truthy (is_streaming_request sse_request)
   \<and> iter_content broken_response = [''a'']
   \<and> iter_raises broken_response = Some broken_read
   \<and> body (fst (proxy ''http://localhost:9997'' (upstream_returning broken_response)
        ''v1/completions'' sse_request)) = Stream [''a''] (Some broken_read)"
  by code_simp

text \<open>
  C5 as stated fails. With the upstream answering 404, the generator yields the
  upstream's chunk alone; the status line that \<^verbatim>\<open>generate\<close> would put first is not
  among the items.
\<close>

theorem streaming_non_200_no_marker:
  "truthy (is_streaming_request sse_request)
   \<and> status_code not_found_response = 404
   \<and> status_marker not_found_response = ''HTTP/1.1 404 Not Found'' @ [CHR 0x0A]
   \<and> stream_chunks (body (fst (proxy ''http://localhost:9997''
        (upstream_returning not_found_response) ''v1/completions'' sse_request))) = [''missing'']
   \<and> status_marker not_found_response \<notin> set (stream_chunks (body (fst (proxy ''http://localhost:9997''
        (upstream_returning not_found_response) ''v1/completions'' sse_request))))"
  by code_simp

text \<open>
  C5, as the code has it. In streaming mode, when the upstream responds with a
  status other than 200, that status is the status of the response handed to the
  caller, and the body stream holds the upstream's non-empty chunks and nothing
  else.
\<close>

theorem streaming_non_200_status_relayed:
  assumes "truthy (is_streaming_request req)"
    and "upstream (streaming_call req (target_url L path req)
           (forward_headers (headers req)) (data req)) = Inr resp"
    and "status_code resp \<noteq> 200"
  shows "status (fst (proxy L upstream path req)) = status_code resp
         \<and> stream_chunks (body (fst (proxy L upstream path req))) =
             filter (\<lambda>chunk. chunk \<noteq> []) (iter_content resp)"
  using assms
  by (simp add: proxy_streaming streaming_returns stream_generator_def)

theorem streaming_non_200_status_relayed_witness:
  "truthy (is_streaming_request sse_request)
   \<and> status_code not_found_response \<noteq> 200
   \<and> status (fst (proxy ''http://localhost:9997'' (upstream_returning not_found_response)
                ''v1/completions'' sse_request)) = 404
   \<and> stream_chunks (body (fst (proxy ''http://localhost:9997''
        (upstream_returning not_found_response) ''v1/completions'' sse_request))) = [''missing'']"
proof -
  have up: "upstream_returning not_found_response
      (streaming_call sse_request (target_url ''http://localhost:9997'' ''v1/completions'' sse_request)
         (forward_headers (headers sse_request)) (data sse_request)) = Inr not_found_response"
    by (simp add: upstream_returning_def)
  have ne: "status_code not_found_response \<noteq> 200"
    by (simp add: not_found_response_def)
  show ?thesis
    using streaming_non_200_status_relayed[where upstream = "upstream_returning not_found_response"
        and req = sse_request and L = "''http://localhost:9997''" and path = "''v1/completions''"
        and resp = not_found_response, OF sse_is_streaming up ne] sse_is_streaming ne
    by (simp add: not_found_response_def)
qed

text \<open>
  C6, evaluated on the code. The upstream sends \<^verbatim>\<open>Cache-Control: max-age=3600\<close> and
  \<^verbatim>\<open>Connection: close\<close>. \<^verbatim>\<open>connection\<close> is in the excluded list, so only
  \<^verbatim>\<open>keep-alive\<close> remains; \<^verbatim>\<open>cache-control\<close> is not, so the upstream's value stays
  in the list and \<^verbatim>\<open>no-cache\<close> is appended after it.
\<close>

theorem streaming_keeps_upstream_cache_control:
  "truthy (is_streaming_request sse_request)
   \<and> resp_headers cached_response =
       [(''Cache-Control'', ''max-age=3600''), (''Connection'', ''close''),
        (''Content-Type'', ''text/event-stream'')]
   \<and> response_headers (fst (proxy ''http://localhost:9997'' (upstream_returning cached_response)
        ''v1/completions'' sse_request)) =
       [(''Cache-Control'', ''max-age=3600''), (''Content-Type'', ''text/event-stream''),
        (''Cache-Control'', ''no-cache''), (''Connection'', ''keep-alive'')]"
  by code_simp

text \<open>What holds of the head of a streamed response: the upstream's status, its
  filtered headers followed by the two fixed ones, and a single \<^verbatim>\<open>Connection\<close>
  header.\<close>

lemma lower_connection: "lower ''Connection'' = ''connection''"
  by code_simp

lemma lower_cache_control: "lower ''Cache-Control'' = ''cache-control''"
  by code_simp

lemma filtered_have_no_connection:
  "filter (\<lambda>(key, val). lower key = ''connection'') (filter_response_headers hs) = []"
  by (induction hs) (auto simp: filter_response_headers_def excluded_headers_def)

lemma streaming_response_head:
  assumes "truthy (is_streaming_request req)"
    and "upstream (streaming_call req (target_url L path req)
           (forward_headers (headers req)) (data req)) = Inr resp"
  shows "status (fst (proxy L upstream path req)) = status_code resp
       \<and> response_headers (fst (proxy L upstream path req)) =
           filter_response_headers (resp_headers resp)
             @ [(''Cache-Control'', ''no-cache''), (''Connection'', ''keep-alive'')]
       \<and> filter (\<lambda>(key, val). lower key = ''connection'')
           (response_headers (fst (proxy L upstream path req))) = [(''Connection'', ''keep-alive'')]"
  using assms
  by (simp add: proxy_streaming streaming_returns filtered_have_no_connection
      lower_connection lower_cache_control)

section \<open>The unused generator\<close>

text \<open>
  \<^verbatim>\<open>generate\<close> does what the live path does not: one \<^verbatim>\<open>data:\<close> item when the
  call raises, one after the chunks when the read raises, and a status line first
  when the status is not 200.
\<close>

lemma generate_on_setup_failure:
  assumes "upstream call = Inl e"
  shows "generate repr L upstream call = [generate_except repr L e]"
  using assms by (simp add: generate_def)

lemma generate_converts_mid_stream_exception:
  assumes "upstream call = Inr resp" and "iter_raises resp = Some e"
  shows "\<exists>items. generate repr L upstream call = items @ [generate_except repr L e]"
  using assms by (simp add: generate_def)

lemma generate_marks_non_200:
  assumes "upstream call = Inr resp" and "status_code resp \<noteq> 200"
  shows "\<exists>items. generate repr L upstream call = status_marker resp # items"
  using assms by (simp add: generate_def)

section \<open>The buffered path\<close>












text \<open>
  C7 as stated fails. A connect timeout is a \<^verbatim>\<open>Timeout\<close> and also a
  \<^verbatim>\<open>ConnectionError\<close>; the \<^verbatim>\<open>except ConnectionError\<close> clause comes first, so the
  caller receives 502 with the connection error body, not 504.
\<close>

theorem connect_timeout_is_502:
  "\<not> truthy (is_streaming_request plain_request)
   \<and> is_Timeout (cls connect_timed_out)
   \<and> status (fst (proxy ''http://localhost:9997'' (upstream_raising connect_timed_out)
        ''v1/models'' plain_request)) = 502
   \<and> body (fst (proxy ''http://localhost:9997'' (upstream_raising connect_timed_out)
        ''v1/models'' plain_request)) =
        Json (JObject [(''error'', JString ''Connection error''),
          (''message'', JString ''Unable to connect to llama.cpp server at http://localhost:9997'')])"
  by code_simp

text \<open>
  C7, as the code has it. On the buffered path every exception of the upstream call
  gives exactly one error response, after exactly one call: a
  \<^verbatim>\<open>ConnectionError\<close> (a connect timeout included) gives 502, a \<^verbatim>\<open>Timeout\<close> that
  is not a \<^verbatim>\<open>ConnectionError\<close> gives 504, and any other exception gives 500, each
  with a JSON body \<^verbatim>\<open>{"error": kind, "message": detail}\<close>.
\<close>

theorem buffered_failure_mapping:
  assumes "\<not> truthy (is_streaming_request req)"
    and "upstream (buffered_call L path req) = Inl e"
  shows "(is_ConnectionError (cls e) \<longrightarrow>
            status (fst (proxy L upstream path req)) = 502
            \<and> body (fst (proxy L upstream path req)) =
                Json (JObject [(''error'', JString ''Connection error''),
                  (''message'', JString (''Unable to connect to llama.cpp server at '' @ L))]))
       \<and> (is_Timeout (cls e) \<and> \<not> is_ConnectionError (cls e) \<longrightarrow>
            status (fst (proxy L upstream path req)) = 504
            \<and> body (fst (proxy L upstream path req)) =
                Json (JObject [(''error'', JString ''Timeout error''),
                  (''message'', JString ''Request to llama.cpp server timed out'')]))
       \<and> (\<not> is_Timeout (cls e) \<and> \<not> is_ConnectionError (cls e) \<longrightarrow>
            status (fst (proxy L upstream path req)) = 500
            \<and> body (fst (proxy L upstream path req)) =
                Json (JObject [(''error'', JString ''Proxy error''),
                  (''message'', JString (str_of e))]))
       \<and> snd (proxy L upstream path req) = [buffered_call L path req]"
  using assms
  by (simp add: proxy_buffered with_status_def jsonify_def error_body_def)

theorem buffered_failure_mapping_witness:
  "\<not> truthy (is_streaming_request plain_request)
   \<and> is_Timeout (cls read_timed_out) \<and> \<not> is_ConnectionError (cls read_timed_out)
   \<and> status (fst (proxy ''http://localhost:9997'' (upstream_raising read_timed_out)
        ''v1/models'' plain_request)) = 504
   \<and> body (fst (proxy ''http://localhost:9997'' (upstream_raising read_timed_out)
        ''v1/models'' plain_request)) =
        Json (JObject [(''error'', JString ''Timeout error''),
          (''message'', JString ''Request to llama.cpp server timed out'')])
   \<and> length (snd (proxy ''http://localhost:9997'' (upstream_raising read_timed_out)
        ''v1/models'' plain_request)) = 1"
proof -
  have up: "upstream_raising read_timed_out
      (buffered_call ''http://localhost:9997'' ''v1/models'' plain_request) = Inl read_timed_out"
    by (simp add: upstream_raising_def)
  have c: "is_Timeout (cls read_timed_out) \<and> \<not> is_ConnectionError (cls read_timed_out)"
    by (simp add: read_timed_out_def)
  show ?thesis
    using buffered_failure_mapping[where upstream = "upstream_raising read_timed_out"
        and req = plain_request and L = "''http://localhost:9997''" and path = "''v1/models''"
        and e = read_timed_out, OF plain_is_buffered up] plain_is_buffered c
    by simp
qed

text \<open>
  C9, evaluated on the code. For \<^verbatim>\<open>GET /v1/models?a=1\<close> the handler builds the
  target URL with the query string verbatim and also passes the parsed query as
  \<^verbatim>\<open>params\<close> (line 152; line 57 and line 92 on the streaming path), which the
  library encodes and appends: the upstream receives the query twice.
\<close>

theorem query_string_sent_twice:
  "query_string query_request = ''a=1''
   \<and> target_url ''http://localhost:9997'' ''v1/models'' query_request
       = ''http://localhost:9997/v1/models?a=1''
   \<and> map kw_url (snd (proxy ''http://localhost:9997'' (upstream_returning hello_response)
        ''v1/models'' query_request)) = [''http://localhost:9997/v1/models?a=1'']
   \<and> map kw_params (snd (proxy ''http://localhost:9997'' (upstream_returning hello_response)
        ''v1/models'' query_request)) = [[(''a'', ''1'')]]
   \<and> map prepared_url (snd (proxy ''http://localhost:9997'' (upstream_returning hello_response)
        ''v1/models'' query_request)) = [''http://localhost:9997/v1/models?a=1&a=1'']"
  by code_simp

end
